theory Spec2Isabelle
  imports Complex_Main
begin

section \<open>Clock plan and subsystem composition of the Colorlight i5/i9 HDMI target\<close>

text \<open>
  A shallow embedding of \<^verbatim>\<open>src/litex/colorlight_i5.py\<close>: the clock and reset generator
  \<^verbatim>\<open>_CRG.__init__\<close>, the composition \<^verbatim>\<open>BaseSoC.__init__\<close> and the command-line
  entry \<^verbatim>\<open>main\<close>.

  The Python builds hardware objects by side effect on \<^verbatim>\<open>self\<close>; the model returns the
  object built, as a record of what was allocated on it, in the order of the statements.
  An exception is a value \<open>Inl e\<close> of the result type and ends the construction, as the
  exception does. Frequencies are Python floats; they are modelled as reals (finite
  values: doubling a float and \<^verbatim>\<open>310e6/5\<close> are exact in binary floating point).

  Pin requests (\<^verbatim>\<open>platform.request\<close>), \<^verbatim>\<open>SoCCore.__init__\<close>, the \<^verbatim>\<open>add_*\<close> methods and the
  reset logic are collaborators outside the file; they are recorded, not modelled, and
  taken to return. The platform constructor, which is keyed on the board, is modelled
  (see \<open>Platform\<close> below).
\<close>

subsection \<open>Errors\<close>

text \<open>
  \<open>InvalidConfig\<close> and \<open>GeneratorCapacityExceeded\<close> are the generator's two refusals (see
  \<open>create_clkout\<close> below). \<open>MutuallyExclusiveOptions\<close> is the command-line parser's refusal
  of two options of one mutually exclusive group (\<^verbatim>\<open>add_mutually_exclusive_group\<close>, lines
  148--150). \<open>UnboundLocalError\<close> is Python's own exception for reading a local name that
  no executed statement has bound, \<open>AssertionError\<close> its exception for an \<^verbatim>\<open>assert\<close> that
  fails.
\<close>

datatype error =
    InvalidConfig
  | GeneratorCapacityExceeded string nat
  | MutuallyExclusiveOptions
  | UnboundLocalError string
  | AssertionError

definition and_then :: "error + 'a \<Rightarrow> ('a \<Rightarrow> error + 'b) \<Rightarrow> error + 'b" where
  "and_then r k = (case r of Inl e \<Rightarrow> Inl e | Inr x \<Rightarrow> k x)"

subsection \<open>Clock domains and the frequency generator\<close>

text \<open>
  \<^verbatim>\<open>self.cd_sys = ClockDomain()\<close>: a clock domain created without a name takes the name of
  the attribute it is assigned to, with a leading \<^verbatim>\<open>cd_\<close> removed.
\<close>

definition ClockDomain :: "string \<Rightarrow> string" where
  "ClockDomain attr = (if take 3 attr = ''cd_'' then drop 3 attr else attr)"

record clock_source =
  source_name :: string
  source_freq :: real
  source_internal :: bool

record clkout =
  cd :: string
  freq :: real
  phase :: real
  margin :: "real option"

record ecp5pll =
  pll_name :: string
  clkin :: "clock_source option"
  clkouts :: "clkout list"

definition ECP5PLL :: "string \<Rightarrow> ecp5pll" where
  "ECP5PLL n = \<lparr>pll_name = n, clkin = None, clkouts = []\<rparr>"

definition register_clkin :: "ecp5pll \<Rightarrow> clock_source \<Rightarrow> ecp5pll" where
  "register_clkin p clk = p\<lparr>clkin := Some clk\<rparr>"

text \<open>
  Modelled from the spec: the generator class \<^verbatim>\<open>ECP5PLL\<close> is imported from
  \<^verbatim>\<open>litex.soc.cores.clock\<close> and is not under \<^verbatim>\<open>src/\<close>; only its calls are. The spec gives a
  generator a maximum output frequency (a fixed ceiling whose value it leaves to the
  generator technology: the parameter \<open>clko_freq_max\<close>) and an output capacity (at most 4
  outputs per generator in this design). A request for an output whose frequency is not
  positive or exceeds the ceiling fails with \<open>InvalidConfig\<close>; a request beyond the capacity
  fails with \<open>GeneratorCapacityExceeded\<close>, naming the generator and the requested output
  count. An accepted request is appended to the generator's outputs. The phase offset
  defaults to 0 degrees; the frequency margin is optional (\<open>None\<close>: not given).
\<close>

definition nclkouts_max :: nat where
  "nclkouts_max = 4"

definition create_clkout ::
  "real \<Rightarrow> ecp5pll \<Rightarrow> string \<Rightarrow> real \<Rightarrow> real \<Rightarrow> real option \<Rightarrow> error + ecp5pll" where
  "create_clkout clko_freq_max p d f ph m =
     (if f \<le> 0 \<or> clko_freq_max < f then Inl InvalidConfig
      else if nclkouts_max \<le> length (clkouts p)
        then Inl (GeneratorCapacityExceeded (pll_name p) (Suc (length (clkouts p))))
      else Inr (p\<lparr>clkouts := clkouts p @ [\<lparr>cd = d, freq = f, phase = ph, margin = m\<rparr>]\<rparr>))"

subsection \<open>\<^verbatim>\<open>_CRG.__init__\<close> (lines 45--85)\<close>

record crg =
  clock_domains :: "string list"
  clk_source :: clock_source
  pll :: ecp5pll
  video_pll :: "ecp5pll option"

text \<open>
  The parameters \<^verbatim>\<open>platform\<close> (pin requests only) and \<^verbatim>\<open>with_usb_pll\<close> (never read) are
  left out. \<open>clock_domains\<close> lists the \<^verbatim>\<open>cd_*\<close> attributes in the order they are created.
\<close>

definition CRG :: "real \<Rightarrow> real \<Rightarrow> bool \<Rightarrow> bool \<Rightarrow> string \<Rightarrow> error + crg" where
  "CRG clko_freq_max sys_clk_freq use_internal_osc with_video_pll sdram_rate =
     (let cd_sys = ClockDomain ''cd_sys'';
          cd_sys2x = ClockDomain ''cd_sys2x'';
          cd_sys2x_ps = ClockDomain ''cd_sys2x_ps'';
          cd_sys_ps = ClockDomain ''cd_sys_ps'';
          cds = (if sdram_rate = ''1:2'' then [cd_sys, cd_sys2x, cd_sys2x_ps]
                 else [cd_sys, cd_sys_ps]);
          clk = (if \<not> use_internal_osc
                 then \<lparr>source_name = ''clk25'', source_freq = 25000000,
                       source_internal = False\<rparr>
                 else \<lparr>source_name = ''OSCG'', source_freq = 310000000 / 5,
                       source_internal = True\<rparr>);
          pll0 = register_clkin (ECP5PLL ''pll'') clk
      in and_then (create_clkout clko_freq_max pll0 cd_sys sys_clk_freq 0 None) (\<lambda>pll1.
         and_then
           (if sdram_rate = ''1:2''
            then and_then (create_clkout clko_freq_max pll1 cd_sys2x (2 * sys_clk_freq) 0 None)
                   (\<lambda>pll2. create_clkout clko_freq_max pll2 cd_sys2x_ps (2 * sys_clk_freq)
                              180 None)
            else create_clkout clko_freq_max pll1 cd_sys_ps sys_clk_freq 180 None) (\<lambda>pll3.
         if with_video_pll
         then (let video_pll0 = register_clkin (ECP5PLL ''video_pll'') clk;
                   cd_hdmi = ClockDomain ''cd_hdmi'';
                   cd_hdmi5x = ClockDomain ''cd_hdmi5x''
               in and_then (create_clkout clko_freq_max video_pll0 cd_hdmi 40000000 0 (Some 0))
                    (\<lambda>video_pll1.
                  and_then (create_clkout clko_freq_max video_pll1 cd_hdmi5x 200000000 0
                              (Some 0)) (\<lambda>video_pll2.
                  Inr \<lparr>clock_domains = cds @ [cd_hdmi, cd_hdmi5x], clk_source = clk,
                       pll = pll3, video_pll = Some video_pll2\<rparr>)))
         else Inr \<lparr>clock_domains = cds, clk_source = clk, pll = pll3,
                   video_pll = None\<rparr>)))"

text \<open>The generators of a clock plan, and the output a plan holds for a clock domain.\<close>

definition plls :: "crg \<Rightarrow> ecp5pll list" where
  "plls c = pll c # (case video_pll c of None \<Rightarrow> [] | Some v \<Rightarrow> [v])"

definition domain_specs :: "crg \<Rightarrow> clkout list" where
  "domain_specs c = concat (map clkouts (plls c))"

definition domain_spec :: "crg \<Rightarrow> string \<Rightarrow> clkout option" where
  "domain_spec c n = find (\<lambda>s. cd s = n) (domain_specs c)"

subsection \<open>\<^verbatim>\<open>BaseSoC.__init__\<close> (lines 89--136)\<close>

text \<open>
  \<^verbatim>\<open>str.lower\<close> and \<^verbatim>\<open>str.upper\<close> on the ASCII letters; other characters are kept.
\<close>

definition ascii_uppercase :: string where
  "ascii_uppercase = ''ABCDEFGHIJKLMNOPQRSTUVWXYZ''"

definition ascii_lowercase :: string where
  "ascii_lowercase = ''abcdefghijklmnopqrstuvwxyz''"

definition lower_char :: "char \<Rightarrow> char" where
  "lower_char c =
     (case map_of (zip ascii_uppercase ascii_lowercase) c of None \<Rightarrow> c | Some l \<Rightarrow> l)"

definition upper_char :: "char \<Rightarrow> char" where
  "upper_char c =
     (case map_of (zip ascii_lowercase ascii_uppercase) c of None \<Rightarrow> c | Some u \<Rightarrow> u)"

definition lower :: "string \<Rightarrow> string" where
  "lower s = map lower_char s"

definition upper :: "string \<Rightarrow> string" where
  "upper s = map upper_char s"

text \<open>\<^verbatim>\<open>int(x)\<close> on a float truncates towards zero.\<close>

definition py_int :: "real \<Rightarrow> int" where
  "py_int x = (if 0 \<le> x then \<lfloor>x\<rfloor> else \<lceil>x\<rceil>)"

datatype spi_flash_module = GD25Q16 | W25Q64

datatype sdrphy = GENSDRPHY | HalfRateGENSDRPHY

text \<open>
  The subsystems a LiteX SoC is given by its constructor and its \<^verbatim>\<open>add_*\<close> methods, with
  the arguments the source passes:
  \<^item> \<open>SoCCore clk_freq ident\<close>: \<^verbatim>\<open>SoCCore.__init__(self, platform, int(sys_clk_freq), ident=...)\<close>;
  \<^item> \<open>SpiFlash mode module opcode\<close>: \<^verbatim>\<open>add_spi_flash(mode=..., module=SpiFlashModule(opcode))\<close>;
  \<^item> \<open>SDRAM phy clk_freq rate l2_cache_size\<close>: \<^verbatim>\<open>add_sdram\<close> with the PHY class and the module
    \<^verbatim>\<open>M12L64322A(sys_clk_freq, sdram_rate)\<close>;
  \<^item> \<open>VideoTerminal phy_clock_domain timings clock_domain\<close>: \<^verbatim>\<open>add_video_terminal\<close> on a
    \<^verbatim>\<open>VideoHDMIPHY(..., clock_domain=...)\<close>;
  \<^item> \<open>VideoFramebuffer phy_clock_domain timings clock_domain\<close>: \<^verbatim>\<open>add_video_framebuffer\<close>, which
    the source never calls.
\<close>

datatype subsystem =
    SoCCore int string
  | SpiFlash string spi_flash_module string
  | SDRAM sdrphy real string nat
  | VideoTerminal string string string
  | VideoFramebuffer string string string

text \<open>
  The platform constructor \<^verbatim>\<open>colorlight_i5.Platform(board, revision, toolchain)\<close> of line 97
  is imported from \<^verbatim>\<open>litex_boards.platforms\<close> and is not under \<^verbatim>\<open>src/\<close>. It is keyed on the
  board as the flash selection of lines 115--116 is, by one \<^verbatim>\<open>if\<close> for "i5" and one for
  "i9": the branch of "i5" asserts the revision "7.0", the branch of "i9" the revision
  "7.2", and each binds the local \<^verbatim>\<open>device\<close> that the constructor reads next. For
  another board neither branch runs and reading \<^verbatim>\<open>device\<close> raises \<open>UnboundLocalError\<close>.
  \<open>None\<close> is the constructor returning, \<open>Some e\<close> its raising \<open>e\<close>. The toolchain is handed
  on to the constructor of the parent class, a collaborator that is not modelled.
\<close>

definition Platform :: "string \<Rightarrow> string \<Rightarrow> string \<Rightarrow> error option" where
  "Platform board revision toolchain =
     (if board = ''i5''
      then (if revision = ''7.0'' then None else Some AssertionError)
      else if board = ''i9''
      then (if revision = ''7.2'' then None else Some AssertionError)
      else Some (UnboundLocalError ''device''))"

record kwargs =
  integrated_main_ram_size :: nat
  l2_size :: "nat option"

record soc_args =
  board :: string
  revision :: string
  toolchain :: string
  sys_clk_freq :: real
  use_internal_osc :: bool
  sdram_rate :: string
  with_video_terminal :: bool
  with_video_framebuffer :: bool
  kwargs :: kwargs

record soc =
  platform_board :: string
  platform_revision :: string
  platform_toolchain :: string
  crg :: crg
  subsystems :: "subsystem list"

text \<open>
  The two \<^verbatim>\<open>if board == ...: from litespi.modules import ... as SpiFlashModule\<close> statements
  (lines 115--116) bind the local name \<^verbatim>\<open>SpiFlashModule\<close> or leave it as it was; line 118
  reads it. \<open>None\<close> is the unbound name. The platform is constructed first (line 97), the
  clock generator next (line 105).
\<close>

definition BaseSoC :: "real \<Rightarrow> soc_args \<Rightarrow> error + soc" where
  "BaseSoC clko_freq_max a =
     (let board' = lower (board a);
          with_video_pll = (with_video_terminal a \<or> with_video_framebuffer a)
      in and_then (case Platform board' (revision a) (toolchain a) of
                     Some e \<Rightarrow> Inl e | None \<Rightarrow> Inr ()) (\<lambda>platform.
         and_then (CRG clko_freq_max (sys_clk_freq a) (use_internal_osc a) with_video_pll
                     (sdram_rate a)) (\<lambda>crg'.
         let core = SoCCore (py_int (sys_clk_freq a))
                      (''LiteX SoC on Colorlight '' @ upper board');
             SpiFlashModule0 = (if board' = ''i5'' then Some GD25Q16 else None);
             SpiFlashModule1 = (if board' = ''i9'' then Some W25Q64 else SpiFlashModule0)
         in (case SpiFlashModule1 of
               None \<Rightarrow> Inl (UnboundLocalError ''SpiFlashModule'')
             | Some SpiFlashModule \<Rightarrow>
                 (let spi_flash = SpiFlash ''1x'' SpiFlashModule ''READ_1_1_1'';
                      sdram =
                        (if integrated_main_ram_size (kwargs a) = 0
                         then [SDRAM (if sdram_rate a = ''1:2'' then HalfRateGENSDRPHY
                                      else GENSDRPHY)
                                 (sys_clk_freq a) (sdram_rate a)
                                 (case l2_size (kwargs a) of None \<Rightarrow> 8192 | Some n \<Rightarrow> n)]
                         else []);
                      video =
                        (if with_video_terminal a \<or> with_video_framebuffer a
                         then [VideoTerminal ''hdmi'' ''800x600@60Hz'' ''hdmi'']
                         else [])
                  in Inr \<lparr>platform_board = board', platform_revision = revision a,
                          platform_toolchain = toolchain a, crg = crg',
                          subsystems = [core, spi_flash] @ sdram @ video\<rparr>)))))"

subsection \<open>\<^verbatim>\<open>main\<close> (lines 139--169)\<close>

text \<open>
  The parsed command line: the option values, and for the two \<^verbatim>\<open>store_true\<close> options
  whether the option was given. The parser itself is a collaborator; what is modelled of
  it is the mutually exclusive group of lines 148--150, which refuses a command line
  giving both of its options. \<^verbatim>\<open>main\<close> does not pass \<^verbatim>\<open>use_internal_osc\<close>, which keeps
  its default. Building and loading the bitstream follow the construction and are outside
  the model; the result is the SoC handed to the builder.
\<close>

record args =
  args_board :: string
  args_revision :: string
  args_toolchain :: string
  args_sys_clk_freq :: real
  args_sdram_rate :: string
  args_with_video_terminal :: bool
  args_with_video_framebuffer :: bool
  soc_argdict :: kwargs

definition main :: "real \<Rightarrow> args \<Rightarrow> error + soc" where
  "main clko_freq_max args =
     (if args_with_video_terminal args \<and> args_with_video_framebuffer args
      then Inl MutuallyExclusiveOptions
      else BaseSoC clko_freq_max
             \<lparr>board = args_board args, revision = args_revision args,
              toolchain = args_toolchain args, sys_clk_freq = args_sys_clk_freq args,
              use_internal_osc = False, sdram_rate = args_sdram_rate args,
              with_video_terminal = args_with_video_terminal args,
              with_video_framebuffer = args_with_video_framebuffer args,
              kwargs = soc_argdict args\<rparr>)"

text \<open>
  Modelled from the spec: the cores behind the subsystems (\<^verbatim>\<open>SoCCore\<close>, LiteSPI, the SDRAM
  PHYs, \<^verbatim>\<open>VideoHDMIPHY\<close>) are imported and not under \<^verbatim>\<open>src/\<close>, so the clock domains each
  one runs in are taken from the spec's bindings: the core and the boot flash on "sys";
  the memory controller on "sys", and with the half-rate PHY of mode "1:2" also on
  "sys2x" and "sys2x_ps"; the display on its pixel clock domain (the \<^verbatim>\<open>clock_domain\<close>
  argument) and on the serializer domain at five times the pixel clock, which carries the
  name of the pixel domain with the suffix \<^verbatim>\<open>5x\<close>.
\<close>

fun clock_domains_of :: "subsystem \<Rightarrow> string list" where
  "clock_domains_of (SoCCore n i) = [''sys'']"
| "clock_domains_of (SpiFlash m c opc) = [''sys'']"
| "clock_domains_of (SDRAM GENSDRPHY f r l) = [''sys'']"
| "clock_domains_of (SDRAM HalfRateGENSDRPHY f r l) = [''sys'', ''sys2x'', ''sys2x_ps'']"
| "clock_domains_of (VideoTerminal pd t d) = [d, pd, pd @ ''5x'']"
| "clock_domains_of (VideoFramebuffer pd t d) = [d, pd, pd @ ''5x'']"

fun is_display :: "subsystem \<Rightarrow> bool" where
  "is_display (VideoTerminal pd t d) = True"
| "is_display (VideoFramebuffer pd t d) = True"
| "is_display s = False"

text \<open>The default arguments of \<^verbatim>\<open>BaseSoC.__init__\<close> (lines 89--93) and of the parser (lines 142--145).\<close>

definition default_kwargs :: kwargs where
  "default_kwargs = \<lparr>integrated_main_ram_size = 0, l2_size = None\<rparr>"

definition default_soc_args :: soc_args where
  "default_soc_args =
     \<lparr>board = ''i5'', revision = ''7.0'', toolchain = ''trellis'', sys_clk_freq = 60000000,
      use_internal_osc = False, sdram_rate = ''1:1'', with_video_terminal = False,
      with_video_framebuffer = False, kwargs = default_kwargs\<rparr>"

definition default_args :: args where
  "default_args =
     \<lparr>args_board = ''i5'', args_revision = ''7.0'', args_toolchain = ''trellis'',
      args_sys_clk_freq = 60000000, args_sdram_rate = ''1:1'',
      args_with_video_terminal = False, args_with_video_framebuffer = False,
      soc_argdict = default_kwargs\<rparr>"

section \<open>Properties\<close>

subsection \<open>What the clock generator returns\<close>

lemmas str_simps =
  lower_def upper_def lower_char_def upper_char_def ascii_uppercase_def ascii_lowercase_def

lemmas gen_simps =
  create_clkout_def and_then_def ClockDomain_def ECP5PLL_def register_clkin_def nclkouts_max_def

lemmas plan_simps = domain_spec_def domain_specs_def plls_def

lemmas default_simps = default_soc_args_def default_args_def default_kwargs_def

text \<open>
  The clock generator returns exactly when every output it requests is within the
  generator's range; otherwise the error is the generator's \<open>InvalidConfig\<close>.
\<close>

lemma CRG_InrD:
  assumes "CRG fmax f osc vid rate = Inr c"
  shows "0 < f \<and> f \<le> fmax \<and> (rate = ''1:2'' \<longrightarrow> 2 * f \<le> fmax) \<and>
         (vid \<longrightarrow> 200000000 \<le> fmax)"
  using assms unfolding CRG_def by (simp add: gen_simps Let_def split: if_splits)

lemma CRG_InlD:
  assumes "CRG fmax f osc vid rate = Inl e"
  shows "e = InvalidConfig"
  using assms unfolding CRG_def by (simp add: gen_simps Let_def split: if_splits)

lemma CRG_returns:
  assumes "0 < f" and "f \<le> fmax" and "rate = ''1:2'' \<longrightarrow> 2 * f \<le> fmax"
    and "vid \<longrightarrow> 200000000 \<le> fmax"
  shows "\<exists>c. CRG fmax f osc vid rate = Inr c"
  using assms unfolding CRG_def by (auto simp add: gen_simps Let_def)

text \<open>
  So the conditions under which the properties below are stated leave out only the
  configurations for which no plan exists.
\<close>

lemma CRG_returns_iff:
  "(\<exists>c. CRG fmax f osc vid rate = Inr c) \<longleftrightarrow>
   0 < f \<and> f \<le> fmax \<and> (rate = ''1:2'' \<longrightarrow> 2 * f \<le> fmax) \<and>
   (vid \<longrightarrow> 200000000 \<le> fmax)"
  using CRG_InrD [of fmax f osc vid rate] CRG_returns [of f fmax rate vid osc] by blast

text \<open>What a returned plan holds.\<close>

lemma CRG_pll:
  assumes "CRG fmax f osc vid rate = Inr c"
  shows "pll c =
           \<lparr>pll_name = ''pll'', clkin = Some (clk_source c),
            clkouts =
              (if rate = ''1:2''
               then [\<lparr>cd = ''sys'', freq = f, phase = 0, margin = None\<rparr>,
                     \<lparr>cd = ''sys2x'', freq = 2 * f, phase = 0, margin = None\<rparr>,
                     \<lparr>cd = ''sys2x_ps'', freq = 2 * f, phase = 180, margin = None\<rparr>]
               else [\<lparr>cd = ''sys'', freq = f, phase = 0, margin = None\<rparr>,
                     \<lparr>cd = ''sys_ps'', freq = f, phase = 180, margin = None\<rparr>])\<rparr>"
  using assms unfolding CRG_def by (auto simp add: gen_simps Let_def split: if_splits)

lemma CRG_video_pll:
  assumes "CRG fmax f osc vid rate = Inr c"
  shows "video_pll c =
           (if vid
            then Some \<lparr>pll_name = ''video_pll'', clkin = Some (clk_source c),
                   clkouts =
                     [\<lparr>cd = ''hdmi'', freq = 40000000, phase = 0, margin = Some 0\<rparr>,
                      \<lparr>cd = ''hdmi5x'', freq = 200000000, phase = 0, margin = Some 0\<rparr>]\<rparr>
            else None)"
  using assms unfolding CRG_def by (auto simp add: gen_simps Let_def split: if_splits)

lemma CRG_clock_domains:
  assumes "CRG fmax f osc vid rate = Inr c"
  shows "clock_domains c =
           (if rate = ''1:2'' then [''sys'', ''sys2x'', ''sys2x_ps''] else [''sys'', ''sys_ps''])
           @ (if vid then [''hdmi'', ''hdmi5x''] else [])"
  using assms unfolding CRG_def by (auto simp add: gen_simps Let_def split: if_splits)

lemma CRG_clk_source:
  assumes "CRG fmax f osc vid rate = Inr c"
  shows "clk_source c =
           (if osc
            then \<lparr>source_name = ''OSCG'', source_freq = 62000000, source_internal = True\<rparr>
            else \<lparr>source_name = ''clk25'', source_freq = 25000000, source_internal = False\<rparr>)"
  using assms unfolding CRG_def by (auto simp add: gen_simps Let_def split: if_splits)

text \<open>The display branch adds to the plan and changes nothing of the rest.\<close>

lemma CRG_without_video:
  assumes "CRG fmax f osc vid rate = Inr c"
  shows "CRG fmax f osc False rate =
           Inr (c\<lparr>clock_domains := take (if rate = ''1:2'' then 3 else 2) (clock_domains c),
                  video_pll := None\<rparr>)"
  using assms unfolding CRG_def by (auto simp add: gen_simps Let_def split: if_splits)

subsection \<open>What the composition returns\<close>

lemma BaseSoC_InrD:
  assumes "BaseSoC fmax a = Inr s"
  shows "CRG fmax (sys_clk_freq a) (use_internal_osc a)
           (with_video_terminal a \<or> with_video_framebuffer a) (sdram_rate a) = Inr (crg s)"
    and "lower (board a) = ''i5'' \<or> lower (board a) = ''i9''"
    and "subsystems s =
           [SoCCore (py_int (sys_clk_freq a))
              (''LiteX SoC on Colorlight '' @ upper (lower (board a))),
            SpiFlash ''1x'' (if lower (board a) = ''i9'' then W25Q64 else GD25Q16)
              ''READ_1_1_1'']
           @ (if integrated_main_ram_size (kwargs a) = 0
              then [SDRAM (if sdram_rate a = ''1:2'' then HalfRateGENSDRPHY else GENSDRPHY)
                      (sys_clk_freq a) (sdram_rate a)
                      (case l2_size (kwargs a) of None \<Rightarrow> 8192 | Some n \<Rightarrow> n)]
              else [])
           @ (if with_video_terminal a \<or> with_video_framebuffer a
              then [VideoTerminal ''hdmi'' ''800x600@60Hz'' ''hdmi''] else [])"
    and "platform_board s = lower (board a)"
    and "platform_revision s = revision a"
    and "platform_toolchain s = toolchain a"
    and "Platform (lower (board a)) (revision a) (toolchain a) = None"
  using assms unfolding BaseSoC_def
  by (auto simp add: and_then_def Let_def Platform_def
        split: sum.splits if_splits option.splits)

lemma BaseSoC_returns:
  assumes "CRG fmax (sys_clk_freq a) (use_internal_osc a)
             (with_video_terminal a \<or> with_video_framebuffer a) (sdram_rate a) = Inr c"
    and "Platform (lower (board a)) (revision a) (toolchain a) = None"
  shows "\<exists>s. BaseSoC fmax a = Inr s"
  using assms unfolding BaseSoC_def
  by (auto simp add: and_then_def Let_def Platform_def
        split: sum.splits if_splits option.splits)

lemma BaseSoC_Platform_error:
  assumes "Platform (lower (board a)) (revision a) (toolchain a) = Some e"
  shows "BaseSoC fmax a = Inl e"
  using assms unfolding BaseSoC_def by (simp add: and_then_def Let_def)

lemma BaseSoC_CRG_error:
  assumes "Platform (lower (board a)) (revision a) (toolchain a) = None"
    and "CRG fmax (sys_clk_freq a) (use_internal_osc a)
             (with_video_terminal a \<or> with_video_framebuffer a) (sdram_rate a) = Inl e"
  shows "BaseSoC fmax a = Inl e"
  using assms unfolding BaseSoC_def by (simp add: and_then_def Let_def)

text \<open>The composition fails with the platform's error, or else with the clock generator's.\<close>

lemma BaseSoC_InlD:
  assumes "BaseSoC fmax a = Inl e"
  shows "e = AssertionError \<or> e = UnboundLocalError ''device'' \<or> e = InvalidConfig"
proof (cases "Platform (lower (board a)) (revision a) (toolchain a)")
  case (Some e')
  from BaseSoC_Platform_error [OF Some] assms have "e = e'"
    by simp
  with Some show ?thesis
    by (auto simp add: Platform_def split: if_splits)
next
  case None
  show ?thesis
  proof (cases "CRG fmax (sys_clk_freq a) (use_internal_osc a)
                  (with_video_terminal a \<or> with_video_framebuffer a) (sdram_rate a)")
    case (Inl e')
    from BaseSoC_CRG_error [OF None Inl] assms have "e = e'"
      by simp
    with CRG_InlD [OF Inl] show ?thesis
      by simp
  next
    case (Inr c)
    from BaseSoC_returns [OF Inr None] assms show ?thesis
      by auto
  qed
qed

text \<open>Every clock domain of a plan has an output of one of the plan's generators.\<close>

lemma CRG_domain_spec_present:
  assumes c: "CRG fmax f osc vid rate = Inr c"
    and n: "n \<in> set (clock_domains c)"
  shows "domain_spec c n \<noteq> None"
proof (cases "rate = ''1:2''")
  case True
  show ?thesis
  proof (cases vid)
    case True
    with \<open>rate = ''1:2''\<close> n show ?thesis
      by (auto simp add: CRG_clock_domains [OF c] plan_simps CRG_pll [OF c]
            CRG_video_pll [OF c])
  next
    case False
    with \<open>rate = ''1:2''\<close> n show ?thesis
      by (auto simp add: CRG_clock_domains [OF c] plan_simps CRG_pll [OF c]
            CRG_video_pll [OF c])
  qed
next
  case False
  show ?thesis
  proof (cases vid)
    case True
    with \<open>rate \<noteq> ''1:2''\<close> n show ?thesis
      by (auto simp add: CRG_clock_domains [OF c] plan_simps CRG_pll [OF c]
            CRG_video_pll [OF c])
  next
    case False
    with \<open>rate \<noteq> ''1:2''\<close> n show ?thesis
      by (auto simp add: CRG_clock_domains [OF c] plan_simps CRG_pll [OF c]
            CRG_video_pll [OF c])
  qed
qed

text \<open>The clock domains a subsystem of a returned SoC references are clock domains of its plan.\<close>

lemma BaseSoC_references:
  assumes s: "BaseSoC fmax a = Inr s"
    and d: "d \<in> set (subsystems s)"
    and n: "n \<in> set (clock_domains_of d)"
  shows "n \<in> set (clock_domains (crg s))"
proof -
  note c = BaseSoC_InrD(1) [OF s]
  note subs = BaseSoC_InrD(3) [OF s]
  from d consider
      (core) "d = SoCCore (py_int (sys_clk_freq a))
                (''LiteX SoC on Colorlight '' @ upper (lower (board a)))"
    | (flash) "d = SpiFlash ''1x'' (if lower (board a) = ''i9'' then W25Q64 else GD25Q16)
                 ''READ_1_1_1''"
    | (sdram) "d = SDRAM (if sdram_rate a = ''1:2'' then HalfRateGENSDRPHY else GENSDRPHY)
                 (sys_clk_freq a) (sdram_rate a)
                 (case l2_size (kwargs a) of None \<Rightarrow> 8192 | Some n \<Rightarrow> n)"
    | (video) "with_video_terminal a \<or> with_video_framebuffer a"
        "d = VideoTerminal ''hdmi'' ''800x600@60Hz'' ''hdmi''"
    unfolding subs by (auto split: if_splits)
  then show ?thesis
  proof cases
    case core
    with n show ?thesis by (simp add: CRG_clock_domains [OF c])
  next
    case flash
    with n show ?thesis by (simp add: CRG_clock_domains [OF c])
  next
    case sdram
    with n show ?thesis
      by (cases "sdram_rate a = ''1:2''") (auto simp add: CRG_clock_domains [OF c])
  next
    case video
    with n show ?thesis by (auto simp add: CRG_clock_domains [OF c])
  qed
qed

subsection \<open>The "sys" domain\<close>




subsection \<open>The two shapes of the core plan\<close>

text \<open>
  Claim C2: for every valid configuration, if the memory timing mode is "1:2" then
  core-domain resolution yields both "sys2x" at \<open>2 * target_sys_freq\<close> and "sys2x_ps" at
  \<open>2 * target_sys_freq\<close> with 180 degrees phase offset, and no "sys_ps" domain; if the mode
  is "1:1" it yields only "sys_ps" at \<open>target_sys_freq\<close> with 180 degrees phase offset, and
  neither "sys2x" nor "sys2x_ps"; the two shapes never coexist in one plan.

  A configuration is valid when every output requested is within the generator's range.
  The code takes the second shape for every mode other than "1:2", so for "1:1". The
  main generator's outputs are given in full: beside "sys", nothing but the outputs of
  the one shape.
\<close>

theorem memory_timing_mode_shapes:
  assumes "0 < f" and "f \<le> fmax" and "rate = ''1:2'' \<longrightarrow> 2 * f \<le> fmax"
    and "vid \<longrightarrow> 200000000 \<le> fmax"
  shows "\<exists>c. CRG fmax f osc vid rate = Inr c \<and>
           (rate = ''1:2'' \<longrightarrow>
              clkouts (pll c) =
                [\<lparr>cd = ''sys'', freq = f, phase = 0, margin = None\<rparr>,
                 \<lparr>cd = ''sys2x'', freq = 2 * f, phase = 0, margin = None\<rparr>,
                 \<lparr>cd = ''sys2x_ps'', freq = 2 * f, phase = 180, margin = None\<rparr>] \<and>
              domain_spec c ''sys2x'' =
                Some \<lparr>cd = ''sys2x'', freq = 2 * f, phase = 0, margin = None\<rparr> \<and>
              domain_spec c ''sys2x_ps'' =
                Some \<lparr>cd = ''sys2x_ps'', freq = 2 * f, phase = 180, margin = None\<rparr> \<and>
              domain_spec c ''sys_ps'' = None \<and>
              ''sys2x'' \<in> set (clock_domains c) \<and> ''sys2x_ps'' \<in> set (clock_domains c) \<and>
              ''sys_ps'' \<notin> set (clock_domains c)) \<and>
           (rate \<noteq> ''1:2'' \<longrightarrow>
              clkouts (pll c) =
                [\<lparr>cd = ''sys'', freq = f, phase = 0, margin = None\<rparr>,
                 \<lparr>cd = ''sys_ps'', freq = f, phase = 180, margin = None\<rparr>] \<and>
              domain_spec c ''sys_ps'' =
                Some \<lparr>cd = ''sys_ps'', freq = f, phase = 180, margin = None\<rparr> \<and>
              domain_spec c ''sys2x'' = None \<and> domain_spec c ''sys2x_ps'' = None \<and>
              ''sys_ps'' \<in> set (clock_domains c) \<and>
              ''sys2x'' \<notin> set (clock_domains c) \<and> ''sys2x_ps'' \<notin> set (clock_domains c)) \<and>
           \<not> (''sys_ps'' \<in> set (clock_domains c) \<and>
              (''sys2x'' \<in> set (clock_domains c) \<or> ''sys2x_ps'' \<in> set (clock_domains c)))"
proof -
  obtain c where c: "CRG fmax f osc vid rate = Inr c"
    using CRG_returns [OF assms] by blast
  have half: "rate = ''1:2'' \<Longrightarrow>
      clkouts (pll c) =
        [\<lparr>cd = ''sys'', freq = f, phase = 0, margin = None\<rparr>,
         \<lparr>cd = ''sys2x'', freq = 2 * f, phase = 0, margin = None\<rparr>,
         \<lparr>cd = ''sys2x_ps'', freq = 2 * f, phase = 180, margin = None\<rparr>] \<and>
      domain_spec c ''sys2x'' =
        Some \<lparr>cd = ''sys2x'', freq = 2 * f, phase = 0, margin = None\<rparr> \<and>
      domain_spec c ''sys2x_ps'' =
        Some \<lparr>cd = ''sys2x_ps'', freq = 2 * f, phase = 180, margin = None\<rparr> \<and>
      domain_spec c ''sys_ps'' = None"
    by (simp add: plan_simps CRG_pll [OF c] CRG_video_pll [OF c])
  have full: "rate \<noteq> ''1:2'' \<Longrightarrow>
      clkouts (pll c) =
        [\<lparr>cd = ''sys'', freq = f, phase = 0, margin = None\<rparr>,
         \<lparr>cd = ''sys_ps'', freq = f, phase = 180, margin = None\<rparr>] \<and>
      domain_spec c ''sys_ps'' =
        Some \<lparr>cd = ''sys_ps'', freq = f, phase = 180, margin = None\<rparr> \<and>
      domain_spec c ''sys2x'' = None \<and> domain_spec c ''sys2x_ps'' = None"
    by (simp add: plan_simps CRG_pll [OF c] CRG_video_pll [OF c])
  have doms: "clock_domains c =
      (if rate = ''1:2'' then [''sys'', ''sys2x'', ''sys2x_ps''] else [''sys'', ''sys_ps''])
      @ (if vid then [''hdmi'', ''hdmi5x''] else [])"
    by (rule CRG_clock_domains [OF c])
  show ?thesis
    using c half full by (intro exI [of _ c]) (simp add: doms)
qed

theorem memory_timing_mode_shapes_witness:
  "\<exists>c. CRG 400000000 60000000 False False ''1:2'' = Inr c \<and>
       domain_spec c ''sys2x'' =
         Some \<lparr>cd = ''sys2x'', freq = 120000000, phase = 0, margin = None\<rparr> \<and>
       domain_spec c ''sys2x_ps'' =
         Some \<lparr>cd = ''sys2x_ps'', freq = 120000000, phase = 180, margin = None\<rparr> \<and>
       domain_spec c ''sys_ps'' = None"
  using memory_timing_mode_shapes [of 60000000 400000000 "''1:2''" False False] by auto

subsection \<open>The display clock domains\<close>

text \<open>
  Claim C3: for every configuration in which exactly one of \<^verbatim>\<open>with_video_terminal\<close> and
  \<^verbatim>\<open>with_video_framebuffer\<close> is set, resolution allocates exactly two new clock domains,
  the pixel clock and the serializer clock, bound to a generator distinct from the core
  generator, with the serializer domain's frequency equal to 5 times the pixel domain's
  frequency (40 MHz and 200 MHz).

  The configuration is one whose requested outputs are within the generator's range. The
  plan is compared with the plan of the same configuration without a display: the clock
  domains are those of that plan followed by "hdmi" (the pixel clock) and "hdmi5x" (the
  serializer clock), the core generator is unchanged, and the second generator, on the
  same reference clock, has these two outputs and no other.
\<close>

theorem display_domains_allocated:
  assumes "vt \<noteq> vfb"
    and "0 < f" and "f \<le> fmax" and "rate = ''1:2'' \<longrightarrow> 2 * f \<le> fmax"
    and "200000000 \<le> fmax"
  shows "\<exists>c c0 v. CRG fmax f osc (vt \<or> vfb) rate = Inr c \<and>
           CRG fmax f osc False rate = Inr c0 \<and>
           clock_domains c = clock_domains c0 @ [''hdmi'', ''hdmi5x''] \<and>
           ''hdmi'' \<notin> set (clock_domains c0) \<and> ''hdmi5x'' \<notin> set (clock_domains c0) \<and>
           pll c = pll c0 \<and> video_pll c0 = None \<and> video_pll c = Some v \<and>
           plls c = [pll c, v] \<and> v \<noteq> pll c \<and> pll_name v \<noteq> pll_name (pll c) \<and>
           clkin v = clkin (pll c) \<and>
           clkouts v =
             [\<lparr>cd = ''hdmi'', freq = 40000000, phase = 0, margin = Some 0\<rparr>,
              \<lparr>cd = ''hdmi5x'', freq = 200000000, phase = 0, margin = Some 0\<rparr>] \<and>
           domain_specs c = domain_specs c0 @ clkouts v \<and>
           freq (clkouts v ! 1) = 5 * freq (clkouts v ! 0)"
proof -
  from assms(1) have vid: "(vt \<or> vfb) = True"
    by auto
  obtain c where c: "CRG fmax f osc True rate = Inr c"
    using CRG_returns [of f fmax rate True osc] assms by auto
  obtain c0 where c0: "CRG fmax f osc False rate = Inr c0"
    using CRG_returns [of f fmax rate False osc] assms by auto
  have src: "clk_source c = clk_source c0"
    by (simp add: CRG_clk_source [OF c] CRG_clk_source [OF c0])
  have main_pll: "pll c = pll c0"
    by (simp add: CRG_pll [OF c] CRG_pll [OF c0] src)
  have doms: "clock_domains c = clock_domains c0 @ [''hdmi'', ''hdmi5x'']"
    by (simp add: CRG_clock_domains [OF c] CRG_clock_domains [OF c0])
  have fresh: "''hdmi'' \<notin> set (clock_domains c0) \<and> ''hdmi5x'' \<notin> set (clock_domains c0)"
    by (simp add: CRG_clock_domains [OF c0])
  define v where "v = \<lparr>pll_name = ''video_pll'', clkin = Some (clk_source c),
      clkouts = [\<lparr>cd = ''hdmi'', freq = 40000000, phase = 0, margin = Some 0\<rparr>,
                 \<lparr>cd = ''hdmi5x'', freq = 200000000, phase = 0, margin = Some 0\<rparr>]\<rparr>"
  have vp: "video_pll c = Some v"
    by (simp add: CRG_video_pll [OF c] v_def)
  have vp0: "video_pll c0 = None"
    by (simp add: CRG_video_pll [OF c0])
  have distinct: "v \<noteq> pll c \<and> pll_name v \<noteq> pll_name (pll c) \<and> clkin v = clkin (pll c)"
    by (simp add: CRG_pll [OF c] v_def)
  have outs: "clkouts v =
      [\<lparr>cd = ''hdmi'', freq = 40000000, phase = 0, margin = Some 0\<rparr>,
       \<lparr>cd = ''hdmi5x'', freq = 200000000, phase = 0, margin = Some 0\<rparr>]"
    by (simp add: v_def)
  have specs: "domain_specs c = domain_specs c0 @ clkouts v"
    by (simp add: plan_simps vp vp0 main_pll)
  have ratio: "freq (clkouts v ! 1) = 5 * freq (clkouts v ! 0)"
    by (simp add: outs)
  have all_plls: "plls c = [pll c, v]"
    by (simp add: plls_def vp)
  show ?thesis
    unfolding vid
    using c c0 doms fresh main_pll vp vp0 distinct outs specs ratio all_plls by blast
qed

text \<open>The 60 MHz scenario of the spec: mode "1:1", the terminal requested.\<close>

theorem display_domains_allocated_witness:
  "\<exists>c v. CRG 400000000 60000000 False (True \<or> False) ''1:1'' = Inr c \<and>
       clock_domains c = [''sys'', ''sys_ps'', ''hdmi'', ''hdmi5x''] \<and>
       video_pll c = Some v \<and> v \<noteq> pll c \<and>
       domain_specs c =
         [\<lparr>cd = ''sys'', freq = 60000000, phase = 0, margin = None\<rparr>,
          \<lparr>cd = ''sys_ps'', freq = 60000000, phase = 180, margin = None\<rparr>,
          \<lparr>cd = ''hdmi'', freq = 40000000, phase = 0, margin = Some 0\<rparr>,
          \<lparr>cd = ''hdmi5x'', freq = 200000000, phase = 0, margin = Some 0\<rparr>]"
proof -
  obtain c c0 v where c: "CRG 400000000 60000000 False (True \<or> False) ''1:1'' = Inr c"
    and c0: "CRG 400000000 60000000 False False ''1:1'' = Inr c0"
    and doms: "clock_domains c = clock_domains c0 @ [''hdmi'', ''hdmi5x'']"
    and vp: "video_pll c = Some v" "v \<noteq> pll c"
    and outs: "clkouts v =
             [\<lparr>cd = ''hdmi'', freq = 40000000, phase = 0, margin = Some 0\<rparr>,
              \<lparr>cd = ''hdmi5x'', freq = 200000000, phase = 0, margin = Some 0\<rparr>]"
    and specs: "domain_specs c = domain_specs c0 @ clkouts v"
    using display_domains_allocated [of True False 60000000 400000000 "''1:1''" False]
    by auto
  have "clock_domains c0 = [''sys'', ''sys_ps'']"
    by (simp add: CRG_clock_domains [OF c0])
  moreover have "domain_specs c0 =
      [\<lparr>cd = ''sys'', freq = 60000000, phase = 0, margin = None\<rparr>,
       \<lparr>cd = ''sys_ps'', freq = 60000000, phase = 180, margin = None\<rparr>]"
    by (simp add: plan_simps CRG_pll [OF c0] CRG_video_pll [OF c0])
  ultimately show ?thesis
    using c doms vp outs specs by auto
qed

subsection \<open>Both display flags\<close>

text \<open>
  Claim C4, as stated: for every combination of the other parameters, composing with both
  \<^verbatim>\<open>with_video_terminal\<close> and \<^verbatim>\<open>with_video_framebuffer\<close> set fails with the
  \<open>MutuallyExclusiveOptions\<close> error; it is never silently accepted or resolved by
  overriding one flag.

  As stated it fails for the composition itself: \<^verbatim>\<open>BaseSoC\<close> reads the two flags only
  through \<^verbatim>\<open>or\<close> (lines 104 and 133), and with both set on its default arguments it
  returns the SoC with the video terminal.
\<close>

theorem both_display_flags_counterexample:
  "map_sum id subsystems
     (BaseSoC 400000000
        (default_soc_args\<lparr>with_video_terminal := True, with_video_framebuffer := True\<rparr>)) =
   Inr [SoCCore 60000000 ''LiteX SoC on Colorlight I5'',
        SpiFlash ''1x'' GD25Q16 ''READ_1_1_1'',
        SDRAM GENSDRPHY 60000000 ''1:1'' 8192,
        VideoTerminal ''hdmi'' ''800x600@60Hz'' ''hdmi'']"
  unfolding BaseSoC_def CRG_def
  by (simp add: gen_simps str_simps default_simps py_int_def Let_def Platform_def)

text \<open>
  Claim C4, amended: for every combination of the other parameters, the command-line
  entry refuses a command line that gives both \<^verbatim>\<open>--with-video-terminal\<close> and
  \<^verbatim>\<open>--with-video-framebuffer\<close>, with the \<open>MutuallyExclusiveOptions\<close> error of their
  option group, before anything is composed. The composition \<^verbatim>\<open>BaseSoC\<close> has no such
  check: it never fails with \<open>MutuallyExclusiveOptions\<close>, and with both flags set it
  returns what it returns with \<^verbatim>\<open>with_video_terminal\<close> alone.
\<close>

theorem both_display_flags:
  "main fmax (ar\<lparr>args_with_video_terminal := True, args_with_video_framebuffer := True\<rparr>) =
     Inl MutuallyExclusiveOptions \<and>
   BaseSoC fmax a \<noteq> Inl MutuallyExclusiveOptions \<and>
   BaseSoC fmax (a\<lparr>with_video_terminal := True, with_video_framebuffer := True\<rparr>) =
     BaseSoC fmax (a\<lparr>with_video_terminal := True, with_video_framebuffer := False\<rparr>)"
proof (intro conjI)
  show "main fmax (ar\<lparr>args_with_video_terminal := True,
          args_with_video_framebuffer := True\<rparr>) = Inl MutuallyExclusiveOptions"
    by (simp add: main_def)
next
  show "BaseSoC fmax a \<noteq> Inl MutuallyExclusiveOptions"
    using BaseSoC_InlD [of fmax a MutuallyExclusiveOptions] by auto
next
  show "BaseSoC fmax (a\<lparr>with_video_terminal := True, with_video_framebuffer := True\<rparr>) =
        BaseSoC fmax (a\<lparr>with_video_terminal := True, with_video_framebuffer := False\<rparr>)"
    by (simp add: BaseSoC_def Let_def)
qed

theorem both_display_flags_witness:
  "main 400000000
     (default_args\<lparr>args_with_video_terminal := True, args_with_video_framebuffer := True\<rparr>) =
   Inl MutuallyExclusiveOptions"
  using both_display_flags [of 400000000 default_args] by simp

subsection \<open>Frequencies outside the generator's range\<close>

text \<open>
  Claim C5: core-domain resolution fails with the \<open>InvalidConfig\<close> error whenever
  \<open>target_sys_freq \<le> 0\<close> or \<open>target_sys_freq\<close> exceeds the generator's fixed maximum
  output frequency; for such inputs no clock plan is produced.

  The first output requested of the main generator is "sys" at \<open>target_sys_freq\<close> (line
  70); the generator refuses it, and the refusal ends the resolution, whatever the other
  parameters are. No clock plan is produced, so the composition that calls the
  resolution returns no SoC; where the platform constructor before it has returned, the
  composition ends with the same error.
\<close>

theorem invalid_frequency_rejected:
  assumes "f \<le> 0 \<or> fmax < f"
  shows "CRG fmax f osc vid rate = Inl InvalidConfig \<and>
         (\<forall>s. BaseSoC fmax (a\<lparr>sys_clk_freq := f\<rparr>) \<noteq> Inr s) \<and>
         (Platform (lower (board a)) (revision a) (toolchain a) = None \<longrightarrow>
            BaseSoC fmax (a\<lparr>sys_clk_freq := f\<rparr>) = Inl InvalidConfig)"
proof -
  have refused: "CRG fmax f osc' vid' rate' = Inl InvalidConfig" for osc' vid' rate'
    using assms unfolding CRG_def by (auto simp add: gen_simps Let_def)
  have "BaseSoC fmax (a\<lparr>sys_clk_freq := f\<rparr>) \<noteq> Inr s" for s
  proof
    assume "BaseSoC fmax (a\<lparr>sys_clk_freq := f\<rparr>) = Inr s"
    from BaseSoC_InrD(1) [OF this] show False
      by (simp add: refused)
  qed
  moreover have "BaseSoC fmax (a\<lparr>sys_clk_freq := f\<rparr>) = Inl InvalidConfig"
    if "Platform (lower (board a)) (revision a) (toolchain a) = None"
    using that by (intro BaseSoC_CRG_error) (simp_all add: refused)
  ultimately show ?thesis
    using refused by simp
qed

theorem invalid_frequency_rejected_witness:
  "CRG 400000000 0 False False ''1:1'' = Inl InvalidConfig \<and>
   CRG 400000000 500000000 False True ''1:2'' = Inl InvalidConfig \<and>
   BaseSoC 400000000 (default_soc_args\<lparr>sys_clk_freq := - 60000000\<rparr>) = Inl InvalidConfig"
  using invalid_frequency_rejected [of 0 400000000 False False "''1:1''" default_soc_args]
    invalid_frequency_rejected [of 500000000 400000000 False True "''1:2''" default_soc_args]
    invalid_frequency_rejected [of "- 60000000" 400000000 False False "''1:1''"
      default_soc_args]
  by (simp add: Platform_def default_simps str_simps)

subsection \<open>The output capacity of a generator\<close>

text \<open>
  Claim C6: for every generated PllPlan, its requested output count is checked against
  the fixed output capacity (at most 4 outputs per generator) before the plan is added to
  the CompositionPlan, and a violation fails with \<open>GeneratorCapacityExceeded\<close> naming the
  offending PllPlan and the requested output count.

  The check is made at each request for an output: an accepted request leaves the
  generator within its capacity, so every generator of a clock plan that resolution
  returns is within it; a request in range made of a generator that is full fails with
  \<open>GeneratorCapacityExceeded\<close>, with the generator's name and the count the request would
  have reached.
\<close>

theorem generator_capacity_checked:
  "(CRG fmax f osc vid rate = Inr c \<longrightarrow>
      (\<forall>p \<in> set (plls c). length (clkouts p) \<le> nclkouts_max)) \<and>
   (create_clkout fmax p d g ph m = Inr p' \<longrightarrow>
      length (clkouts p) < nclkouts_max \<and> length (clkouts p') = Suc (length (clkouts p))) \<and>
   (0 < g \<and> g \<le> fmax \<and> nclkouts_max \<le> length (clkouts p) \<longrightarrow>
      create_clkout fmax p d g ph m =
        Inl (GeneratorCapacityExceeded (pll_name p) (Suc (length (clkouts p)))))"
proof (intro conjI impI)
  assume c: "CRG fmax f osc vid rate = Inr c"
  show "\<forall>p \<in> set (plls c). length (clkouts p) \<le> nclkouts_max"
    by (simp add: plls_def nclkouts_max_def CRG_pll [OF c] CRG_video_pll [OF c])
next
  assume p': "create_clkout fmax p d g ph m = Inr p'"
  show "length (clkouts p) < nclkouts_max"
    using p' by (auto simp add: create_clkout_def split: if_splits)
  show "length (clkouts p') = Suc (length (clkouts p))"
    using p' by (auto simp add: create_clkout_def split: if_splits)
next
  assume "0 < g \<and> g \<le> fmax \<and> nclkouts_max \<le> length (clkouts p)"
  then show "create_clkout fmax p d g ph m =
               Inl (GeneratorCapacityExceeded (pll_name p) (Suc (length (clkouts p))))"
    by (simp add: create_clkout_def)
qed

theorem generator_capacity_checked_witness:
  "create_clkout 400000000
     \<lparr>pll_name = ''pll'', clkin = None,
      clkouts = [\<lparr>cd = ''sys'', freq = 60000000, phase = 0, margin = None\<rparr>,
                 \<lparr>cd = ''sys2x'', freq = 120000000, phase = 0, margin = None\<rparr>,
                 \<lparr>cd = ''sys2x_ps'', freq = 120000000, phase = 180, margin = None\<rparr>,
                 \<lparr>cd = ''usb_12'', freq = 12000000, phase = 0, margin = None\<rparr>]\<rparr>
     ''usb_48'' 48000000 0 None =
   Inl (GeneratorCapacityExceeded ''pll'' 5)"
  using generator_capacity_checked [of 400000000 0 False False "''1:1''" undefined
      "\<lparr>pll_name = ''pll'', clkin = None,
        clkouts = [\<lparr>cd = ''sys'', freq = 60000000, phase = 0, margin = None\<rparr>,
                   \<lparr>cd = ''sys2x'', freq = 120000000, phase = 0, margin = None\<rparr>,
                   \<lparr>cd = ''sys2x_ps'', freq = 120000000, phase = 180, margin = None\<rparr>,
                   \<lparr>cd = ''usb_12'', freq = 12000000, phase = 0, margin = None\<rparr>]\<rparr>"
      "''usb_48''" 48000000 0 None undefined]
  by (simp add: nclkouts_max_def)

subsection \<open>The order of the subsystems\<close>

text \<open>
  Claim C7: in every emitted CompositionPlan, the mandatory core subsystem descriptor is
  first in the descriptor list, and no descriptor appears at a position before every
  clock domain it references is already present in the plan.

  The clock generator is built before the first subsystem (line 105), so the clock
  domains of the plan are all present at every position of the list: each subsystem, at
  each position, references only clock domains of the plan, and each of these has an
  output of a generator of the plan.
\<close>

theorem core_first_domains_present:
  assumes "BaseSoC fmax a = Inr s"
  shows "(\<exists>rest. subsystems s =
            SoCCore (py_int (sys_clk_freq a))
              (''LiteX SoC on Colorlight '' @ upper (lower (board a))) # rest \<and>
            (\<forall>d \<in> set rest. \<forall>n i. d \<noteq> SoCCore n i)) \<and>
         (\<forall>k < length (subsystems s).
            \<forall>n \<in> set (clock_domains_of (subsystems s ! k)).
              n \<in> set (clock_domains (crg s)) \<and> domain_spec (crg s) n \<noteq> None)"
proof -
  note c = BaseSoC_InrD(1) [OF assms]
  note subs = BaseSoC_InrD(3) [OF assms]
  have first: "\<exists>rest. subsystems s =
      SoCCore (py_int (sys_clk_freq a))
        (''LiteX SoC on Colorlight '' @ upper (lower (board a))) # rest \<and>
      (\<forall>d \<in> set rest. \<forall>n i. d \<noteq> SoCCore n i)"
    by (auto simp add: subs)
  have "n \<in> set (clock_domains (crg s)) \<and> domain_spec (crg s) n \<noteq> None"
    if k: "k < length (subsystems s)" and n: "n \<in> set (clock_domains_of (subsystems s ! k))"
    for k n
  proof -
    from k have "subsystems s ! k \<in> set (subsystems s)"
      by (rule nth_mem)
    then have "n \<in> set (clock_domains (crg s))"
      using n by (rule BaseSoC_references [OF assms])
    then show ?thesis
      using CRG_domain_spec_present [OF c] by simp
  qed
  with first show ?thesis
    by blast
qed

theorem core_first_domains_present_witness:
  "\<exists>s. BaseSoC 400000000
          (default_soc_args\<lparr>sdram_rate := ''1:2'', with_video_terminal := True\<rparr>) = Inr s \<and>
       hd (subsystems s) = SoCCore 60000000 ''LiteX SoC on Colorlight I5'' \<and>
       list_all (\<lambda>d. list_all (\<lambda>n. n \<in> set (clock_domains (crg s))) (clock_domains_of d))
         (subsystems s)"
proof -
  let ?a = "default_soc_args\<lparr>sdram_rate := ''1:2'', with_video_terminal := True\<rparr>"
  have "\<exists>c. CRG 400000000 (sys_clk_freq ?a) (use_internal_osc ?a)
               (with_video_terminal ?a \<or> with_video_framebuffer ?a) (sdram_rate ?a) = Inr c"
    by (intro CRG_returns) (simp_all add: default_simps)
  then obtain s where s: "BaseSoC 400000000 ?a = Inr s"
    using BaseSoC_returns [of 400000000 ?a]
    by (auto simp add: Platform_def default_simps str_simps)
  from core_first_domains_present [OF s]
  have first: "hd (subsystems s) = SoCCore 60000000 ''LiteX SoC on Colorlight I5''"
    and at: "\<forall>k < length (subsystems s).
           \<forall>n \<in> set (clock_domains_of (subsystems s ! k)). n \<in> set (clock_domains (crg s))"
    by (auto simp add: default_simps str_simps py_int_def)
  have "\<forall>d \<in> set (subsystems s).
      \<forall>n \<in> set (clock_domains_of d). n \<in> set (clock_domains (crg s))"
  proof (intro ballI)
    fix d n
    assume "d \<in> set (subsystems s)" and n: "n \<in> set (clock_domains_of d)"
    then obtain k where "k < length (subsystems s)" and "subsystems s ! k = d"
      by (auto simp add: in_set_conv_nth)
    with at n show "n \<in> set (clock_domains (crg s))"
      by blast
  qed
  with first have "hd (subsystems s) = SoCCore 60000000 ''LiteX SoC on Colorlight I5'' \<and>
       list_all (\<lambda>d. list_all (\<lambda>n. n \<in> set (clock_domains (crg s))) (clock_domains_of d))
         (subsystems s)"
    by (simp add: list_all_iff)
  with s show ?thesis
    by blast
qed

subsection \<open>No display requested\<close>

text \<open>
  Claim C8: for every configuration in which both \<^verbatim>\<open>with_video_terminal\<close> and
  \<^verbatim>\<open>with_video_framebuffer\<close> are unset, the resulting plan contains no display-related
  clock domains (pixel, serializer), no display PllPlan, and no display subsystem
  descriptor; the rest of the plan is as it would be otherwise.

  The rest is compared with the plan of the same configuration under any other setting
  of the two flags: the reference clock, the core generator and the platform are the
  same, and that plan's clock domains and subsystems, the display's left out, are the
  ones of the plan without a display.
\<close>

theorem no_display_without_flags:
  assumes "\<not> with_video_terminal a" and "\<not> with_video_framebuffer a"
    and "BaseSoC fmax a = Inr s"
  shows "video_pll (crg s) = None \<and> plls (crg s) = [pll (crg s)] \<and>
         ''hdmi'' \<notin> set (clock_domains (crg s)) \<and>
         ''hdmi5x'' \<notin> set (clock_domains (crg s)) \<and>
         domain_spec (crg s) ''hdmi'' = None \<and> domain_spec (crg s) ''hdmi5x'' = None \<and>
         filter is_display (subsystems s) = [] \<and>
         (\<forall>t fb s'.
            BaseSoC fmax (a\<lparr>with_video_terminal := t, with_video_framebuffer := fb\<rparr>) =
              Inr s' \<longrightarrow>
            clk_source (crg s') = clk_source (crg s) \<and> pll (crg s') = pll (crg s) \<and>
            filter (\<lambda>n. n \<noteq> ''hdmi'' \<and> n \<noteq> ''hdmi5x'') (clock_domains (crg s')) =
              clock_domains (crg s) \<and>
            filter (\<lambda>d. \<not> is_display d) (subsystems s') = subsystems s \<and>
            platform_board s' = platform_board s \<and>
            platform_revision s' = platform_revision s \<and>
            platform_toolchain s' = platform_toolchain s)"
proof -
  have off: "(with_video_terminal a \<or> with_video_framebuffer a) = False"
    using assms(1,2) by simp
  note c = BaseSoC_InrD(1) [OF assms(3), unfolded off]
  note subs = BaseSoC_InrD(3) [OF assms(3), unfolded off]
  have vp: "video_pll (crg s) = None"
    by (simp add: CRG_video_pll [OF c])
  have doms: "clock_domains (crg s) =
      (if sdram_rate a = ''1:2'' then [''sys'', ''sys2x'', ''sys2x_ps'']
       else [''sys'', ''sys_ps''])"
    by (simp add: CRG_clock_domains [OF c])
  have specs: "domain_spec (crg s) ''hdmi'' = None \<and> domain_spec (crg s) ''hdmi5x'' = None"
    by (simp add: plan_simps vp CRG_pll [OF c])
  have nodisp: "filter is_display (subsystems s) = []"
    by (simp add: subs)
  have frame: "clk_source (crg s') = clk_source (crg s) \<and> pll (crg s') = pll (crg s) \<and>
      filter (\<lambda>n. n \<noteq> ''hdmi'' \<and> n \<noteq> ''hdmi5x'') (clock_domains (crg s')) =
        clock_domains (crg s) \<and>
      filter (\<lambda>d. \<not> is_display d) (subsystems s') = subsystems s \<and>
      platform_board s' = platform_board s \<and>
      platform_revision s' = platform_revision s \<and>
      platform_toolchain s' = platform_toolchain s"
    if s': "BaseSoC fmax (a\<lparr>with_video_terminal := t, with_video_framebuffer := fb\<rparr>) = Inr s'"
    for t fb s'
  proof -
    let ?a' = "a\<lparr>with_video_terminal := t, with_video_framebuffer := fb\<rparr>"
    have c': "CRG fmax (sys_clk_freq a) (use_internal_osc a) (t \<or> fb) (sdram_rate a) =
        Inr (crg s')"
      using BaseSoC_InrD(1) [OF s'] by simp
    have src: "clk_source (crg s') = clk_source (crg s)"
      by (simp add: CRG_clk_source [OF c'] CRG_clk_source [OF c])
    have main_pll: "pll (crg s') = pll (crg s)"
      by (simp add: CRG_pll [OF c'] CRG_pll [OF c] src)
    have doms': "filter (\<lambda>n. n \<noteq> ''hdmi'' \<and> n \<noteq> ''hdmi5x'') (clock_domains (crg s')) =
        clock_domains (crg s)"
      by (simp add: CRG_clock_domains [OF c'] doms)
    have subs': "filter (\<lambda>d. \<not> is_display d) (subsystems s') = subsystems s"
      using BaseSoC_InrD(3) [OF s'] by (simp add: subs)
    have plat: "platform_board s' = platform_board s \<and>
        platform_revision s' = platform_revision s \<and>
        platform_toolchain s' = platform_toolchain s"
      using BaseSoC_InrD(4,5,6) [OF s'] BaseSoC_InrD(4,5,6) [OF assms(3)] by simp
    from src main_pll doms' subs' plat show ?thesis
      by blast
  qed
  have "plls (crg s) = [pll (crg s)]"
    by (simp add: plls_def vp)
  moreover have "''hdmi'' \<notin> set (clock_domains (crg s)) \<and>
      ''hdmi5x'' \<notin> set (clock_domains (crg s))"
    by (simp add: doms)
  ultimately show ?thesis
    using vp specs nodisp frame by blast
qed

theorem no_display_without_flags_witness:
  "\<exists>s. BaseSoC 400000000 default_soc_args = Inr s \<and>
       video_pll (crg s) = None \<and>
       ''hdmi'' \<notin> set (clock_domains (crg s)) \<and>
       ''hdmi5x'' \<notin> set (clock_domains (crg s)) \<and>
       filter is_display (subsystems s) = []"
proof -
  have "\<exists>c. CRG 400000000 (sys_clk_freq default_soc_args)
               (use_internal_osc default_soc_args)
               (with_video_terminal default_soc_args \<or>
                with_video_framebuffer default_soc_args)
               (sdram_rate default_soc_args) = Inr c"
    by (intro CRG_returns) (simp_all add: default_simps)
  then obtain s where s: "BaseSoC 400000000 default_soc_args = Inr s"
    using BaseSoC_returns [of 400000000 default_soc_args]
    by (auto simp add: Platform_def default_simps str_simps)
  have "\<not> with_video_terminal default_soc_args"
    and "\<not> with_video_framebuffer default_soc_args"
    by (simp_all add: default_simps)
  from no_display_without_flags [OF this s] s show ?thesis
    by blast
qed

subsection \<open>The boot-flash chip profile\<close>




subsection \<open>The framebuffer flag\<close>

text \<open>
  Claim C10: for every configuration in which \<^verbatim>\<open>with_video_framebuffer\<close> is set (with
  \<^verbatim>\<open>with_video_terminal\<close> unset), the emitted display subsystem is the video terminal with
  fixed 800x600@60Hz timings on the display clock domain; that is, both display flags
  lead to the identical video-terminal descriptor, and no distinct framebuffer subsystem
  is ever emitted.

  The composition with the framebuffer flag alone is the composition with the terminal
  flag alone; its one display subsystem, the last of the list, is the video terminal on
  the clock domain "hdmi" of the plan; and no SoC the composition returns, under any
  arguments, has a framebuffer subsystem.
\<close>

theorem framebuffer_flag_gives_video_terminal:
  "BaseSoC fmax (a\<lparr>with_video_terminal := False, with_video_framebuffer := True\<rparr>) =
     BaseSoC fmax (a\<lparr>with_video_terminal := True, with_video_framebuffer := False\<rparr>) \<and>
   (BaseSoC fmax (a\<lparr>with_video_terminal := False, with_video_framebuffer := True\<rparr>) =
      Inr s \<longrightarrow>
      filter is_display (subsystems s) =
        [VideoTerminal ''hdmi'' ''800x600@60Hz'' ''hdmi''] \<and>
      last (subsystems s) = VideoTerminal ''hdmi'' ''800x600@60Hz'' ''hdmi'' \<and>
      ''hdmi'' \<in> set (clock_domains (crg s)) \<and>
      domain_spec (crg s) ''hdmi'' =
        Some \<lparr>cd = ''hdmi'', freq = 40000000, phase = 0, margin = Some 0\<rparr>) \<and>
   (BaseSoC fmax a' = Inr s' \<longrightarrow>
      (\<forall>pd t d. VideoFramebuffer pd t d \<notin> set (subsystems s')))"
proof (intro conjI impI)
  show "BaseSoC fmax (a\<lparr>with_video_terminal := False, with_video_framebuffer := True\<rparr>) =
        BaseSoC fmax (a\<lparr>with_video_terminal := True, with_video_framebuffer := False\<rparr>)"
    by (simp add: BaseSoC_def Let_def)
next
  assume s: "BaseSoC fmax (a\<lparr>with_video_terminal := False,
               with_video_framebuffer := True\<rparr>) = Inr s"
  have c: "CRG fmax (sys_clk_freq a) (use_internal_osc a) True (sdram_rate a) = Inr (crg s)"
    using BaseSoC_InrD(1) [OF s] by simp
  note subs = BaseSoC_InrD(3) [OF s]
  show "filter is_display (subsystems s) = [VideoTerminal ''hdmi'' ''800x600@60Hz'' ''hdmi'']"
    by (simp add: subs)
  show "last (subsystems s) = VideoTerminal ''hdmi'' ''800x600@60Hz'' ''hdmi''"
    by (simp add: subs)
  show "''hdmi'' \<in> set (clock_domains (crg s))"
    by (simp add: CRG_clock_domains [OF c])
  show "domain_spec (crg s) ''hdmi'' =
          Some \<lparr>cd = ''hdmi'', freq = 40000000, phase = 0, margin = Some 0\<rparr>"
    by (simp add: plan_simps CRG_pll [OF c] CRG_video_pll [OF c])
next
  assume s': "BaseSoC fmax a' = Inr s'"
  show "\<forall>pd t d. VideoFramebuffer pd t d \<notin> set (subsystems s')"
    by (auto simp add: BaseSoC_InrD(3) [OF s'])
qed

theorem framebuffer_flag_gives_video_terminal_witness:
  "\<exists>s. BaseSoC 400000000 (default_soc_args\<lparr>with_video_terminal := False,
          with_video_framebuffer := True\<rparr>) = Inr s \<and>
       filter is_display (subsystems s) =
         [VideoTerminal ''hdmi'' ''800x600@60Hz'' ''hdmi''] \<and>
       BaseSoC 400000000 (default_soc_args\<lparr>with_video_terminal := True,
          with_video_framebuffer := False\<rparr>) = Inr s"
proof -
  let ?a = "default_soc_args\<lparr>with_video_terminal := False, with_video_framebuffer := True\<rparr>"
  have "\<exists>c. CRG 400000000 (sys_clk_freq ?a) (use_internal_osc ?a)
               (with_video_terminal ?a \<or> with_video_framebuffer ?a) (sdram_rate ?a) = Inr c"
    by (intro CRG_returns) (simp_all add: default_simps)
  then obtain s where s: "BaseSoC 400000000 ?a = Inr s"
    using BaseSoC_returns [of 400000000 ?a]
    by (auto simp add: Platform_def default_simps str_simps)
  note th = framebuffer_flag_gives_video_terminal [of 400000000 default_soc_args s]
  from th have eq: "BaseSoC 400000000 ?a =
      BaseSoC 400000000 (default_soc_args\<lparr>with_video_terminal := True,
        with_video_framebuffer := False\<rparr>)"
    by (rule conjunct1)
  from th s have disp: "filter is_display (subsystems s) =
      [VideoTerminal ''hdmi'' ''800x600@60Hz'' ''hdmi'']"
    by blast
  from s eq have "BaseSoC 400000000 (default_soc_args\<lparr>with_video_terminal := True,
      with_video_framebuffer := False\<rparr>) = Inr s"
    by simp
  with s disp show ?thesis
    by blast
qed

end
